theory Spec2Isabelle
  imports Main "HOL-Library.Sublist"
begin

section \<open>JavaScript strings\<close>

text \<open>
  A JavaScript string is modelled as a \<^typ>\<open>string\<close>: the list of its code units, here
  the units 0 to 255 (ASCII and the Latin-1 block). The character classes below are
  the ones the regular expressions of the server use without the unicode flag:
  \<^verbatim>\<open>\w\<close> is \<^verbatim>\<open>[A-Za-z0-9_]\<close>, and \<^verbatim>\<open>\s\<close>, like \<^verbatim>\<open>trim()\<close>, takes tab, line feed,
  vertical tab, form feed, carriage return, space and the no-break space.
\<close>

definition isUpper :: "char \<Rightarrow> bool" where
  "isUpper c =
     (let n = (of_char c :: nat)
      in (65 \<le> n \<and> n \<le> 90) \<or> (192 \<le> n \<and> n \<le> 222 \<and> n \<noteq> 215))"


definition lowerChar :: "char \<Rightarrow> char" where
  "lowerChar c = (if isUpper c then char_of ((of_char c :: nat) + 32) else c)"

definition toLowerCase :: "string \<Rightarrow> string" where
  "toLowerCase s = map lowerChar s"

definition isSpace :: "char \<Rightarrow> bool" where
  "isSpace c =
     (let n = (of_char c :: nat)
      in (9 \<le> n \<and> n \<le> 13) \<or> n = 32 \<or> n = 160)"

definition isDigit :: "char \<Rightarrow> bool" where
  "isDigit c = (let n = (of_char c :: nat) in 48 \<le> n \<and> n \<le> 57)"

definition isWord :: "char \<Rightarrow> bool" where
  "isWord c =
     (let n = (of_char c :: nat)
      in (48 \<le> n \<and> n \<le> 57) \<or> (65 \<le> n \<and> n \<le> 90) \<or> n = 95 \<or> (97 \<le> n \<and> n \<le> 122))"

definition isHyphen :: "char \<Rightarrow> bool" where
  "isHyphen c = (c = CHR ''-'')"

definition trim :: "string \<Rightarrow> string" where
  "trim s = rev (dropWhile isSpace (rev (dropWhile isSpace s)))"

definition substring0 :: "nat \<Rightarrow> string \<Rightarrow> string" where
  \<comment> \<open>\<^verbatim>\<open>s.substring(0, n)\<close>\<close>
  "substring0 n s = take n s"

definition startsWith :: "string \<Rightarrow> string \<Rightarrow> bool" where
  \<comment> \<open>\<^verbatim>\<open>s.startsWith(p)\<close>\<close>
  "startsWith s p = (take (length p) s = p)"

definition dq :: char where
  \<comment> \<open>the double quote\<close>
  "dq = CHR 0x22"

definition hasNul :: "string \<Rightarrow> bool" where
  \<comment> \<open>the string holds a null character\<close>
  "hasNul s = (CHR 0x00 \<in> set s)"

subsection \<open>Numbers printed in a template string\<close>

definition digitChar :: "nat \<Rightarrow> char" where
  "digitChar d = ''0123456789'' ! d"

function decimal :: "nat \<Rightarrow> string" where
  "decimal n = (if n < 10 then [digitChar n] else decimal (n div 10) @ [digitChar (n mod 10)])"
  by pat_completeness auto
termination
  by (relation "measure id") auto

declare decimal.simps [simp del]

definition showInt :: "int \<Rightarrow> string" where
  "showInt i = (if i < 0 then CHR ''-'' # decimal (nat (- i)) else decimal (nat i))"

definition digitsValue :: "string \<Rightarrow> nat" where
  "digitsValue ds = foldl (\<lambda>a c. 10 * a + ((of_char c :: nat) - 48)) 0 ds"

definition parseInt10 :: "string \<Rightarrow> int option" where
  \<comment> \<open>\<^verbatim>\<open>parseInt(s, 10)\<close>; \<open>None\<close> is NaN\<close>
  "parseInt10 s =
     (let t = dropWhile isSpace s;
          neg = (t \<noteq> [] \<and> hd t = CHR ''-'');
          u = (if t \<noteq> [] \<and> (hd t = CHR ''-'' \<or> hd t = CHR ''+'') then tl t else t);
          ds = takeWhile isDigit u
      in if ds = [] then None
         else Some (if neg then - int (digitsValue ds) else int (digitsValue ds)))"

section \<open>Branch Namer\<close>

text \<open>
  \<^verbatim>\<open>slugify\<close> of the assisted variant of the server (the one with authentication and
  rate limiting) is a chain of five string operations; each regular-expression
  replacement has a function of its own.
\<close>

definition stripNonWord :: "string \<Rightarrow> string" where
  \<comment> \<open>\<^verbatim>\<open>.replace(/[^\w\s-]/g, "")\<close>\<close>
  "stripNonWord s = filter (\<lambda>c. isWord c \<or> isSpace c \<or> isHyphen c) s"

definition isSep :: "char \<Rightarrow> bool" where
  \<comment> \<open>the class \<^verbatim>\<open>[\s_-]\<close>\<close>
  "isSep c = (isSpace c \<or> c = CHR ''_'' \<or> isHyphen c)"

function collapseSeps :: "string \<Rightarrow> string" where
  \<comment> \<open>\<^verbatim>\<open>.replace(/[\s_-]+/g, "-")\<close>: every maximal run becomes one hyphen\<close>
  "collapseSeps [] = []"
| "collapseSeps (c # cs) =
     (if isSep c then CHR ''-'' # collapseSeps (dropWhile isSep cs)
      else c # collapseSeps cs)"
  by pat_completeness auto
termination
  by (relation "measure length") (auto simp: length_dropWhile_le less_Suc_eq_le)

definition trimHyphens :: "string \<Rightarrow> string" where
  \<comment> \<open>\<^verbatim>\<open>.replace(/^-+|-+$/g, "")\<close>\<close>
  "trimHyphens s = rev (dropWhile isHyphen (rev (dropWhile isHyphen s)))"

definition slugify :: "string \<Rightarrow> string" where
  "slugify text = trimHyphens (collapseSeps (stripNonWord (trim (toLowerCase text))))"


text \<open>
  A child process, as the server observes it. \<^verbatim>\<open>spawn\<close> may throw before there is a
  process (\<open>SpawnThrew\<close>, with the error). Otherwise the process closes with an exit code
  (\<open>None\<close> is the \<^verbatim>\<open>null\<close> of a process killed by a signal) after its output was buffered,
  or the \<^verbatim>\<open>error\<close> event fires because it could not be started, before any output.
\<close>

datatype proc_outcome =
    Closed "int option" string string
  | ProcError string
  | SpawnThrew string

definition nullBytesError :: string where
  \<comment> \<open>the error Node throws for an argument that holds a null character, named by its
      code; its message, which quotes the argument, is not reproduced\<close>
  "nullBytesError = ''ERR_INVALID_ARG_VALUE''"

definition spawn :: "string list \<Rightarrow> proc_outcome \<Rightarrow> proc_outcome" where
  \<comment> \<open>\<^verbatim>\<open>spawn("claude", args, ...)\<close>: an argument that holds a null character makes the call
      throw; otherwise the outcome is the one the environment gives\<close>
  "spawn args p = (if list_ex hasNul args then SpawnThrew nullBytesError else p)"

definition namerArgs :: "string \<Rightarrow> string list" where
  "namerArgs req =
     [''--print'', ''--model'', ''haiku'', ''-p'',
      ''Generate a short git branch name (2-4 words, lowercase, hyphen-separated) that captures the essence of this request. Output ONLY the branch name, nothing else.\<newline>\<newline>Request: ''
        @ req
        @ ''\<newline>\<newline>Examples of good branch names:\<newline>- '' @ [dq] @ ''fix-login-bug'' @ [dq]
        @ ''\<newline>- '' @ [dq] @ ''add-user-avatar'' @ [dq]
        @ ''\<newline>- '' @ [dq] @ ''update-pricing-page'' @ [dq]
        @ ''\<newline>- '' @ [dq] @ ''refactor-auth-flow'' @ [dq]]"

text \<open>
  \<^verbatim>\<open>generateBranchName\<close> returns a promise; \<open>Inl\<close> is its rejection, \<open>Inr\<close> is the value it
  resolves with. \<^verbatim>\<open>spawn\<close> is called inside the executor of the promise, so an error it
  throws rejects the promise; the handlers of \<^verbatim>\<open>close\<close> and \<^verbatim>\<open>error\<close> only resolve. An
  empty string is falsy, so \<^verbatim>\<open>branchName || fallback\<close> takes the fallback exactly when the
  slug of the output is empty.
\<close>

definition generateBranchName :: "proc_outcome \<Rightarrow> string \<Rightarrow> string + string" where
  "generateBranchName proc request =
     (case spawn (namerArgs request) proc of
        SpawnThrew e \<Rightarrow> Inl e
      | Closed code out err \<Rightarrow>
          if code = Some 0 then
            (let branchName = substring0 40 (slugify (trim out))
             in Inr (if branchName \<noteq> [] then branchName else substring0 30 (slugify request)))
          else Inr (substring0 30 (slugify request))
      | ProcError e \<Rightarrow> Inr (substring0 30 (slugify request)))"


definition branchNameOf :: "string \<Rightarrow> nat \<Rightarrow> string" where
  \<comment> \<open>the template \<^verbatim>\<open>claude/${slug}-${Date.now()}\<close>\<close>
  "branchNameOf slug now = ''claude/'' @ slug @ ''-'' @ decimal now"


section \<open>Rate Limiter\<close>

record RateLimitRecord =
  windowStart :: nat
  count :: nat

type_synonym 'k rateLimitMap = "'k \<rightharpoonup> RateLimitRecord"

definition RATE_LIMIT_WINDOW_MS :: int where
  "RATE_LIMIT_WINDOW_MS = 24 * 60 * 60 * 1000"

definition RATE_LIMIT_MAX_REQUESTS :: nat where
  "RATE_LIMIT_MAX_REQUESTS = 5"

text \<open>
  \<^verbatim>\<open>checkRateLimit\<close> reads the clock and mutates the process-wide table; the model takes
  the clock reading (milliseconds since the epoch) and the table, and returns the
  answer with the new table. \<^verbatim>\<open>record.count++\<close> changes the object the table holds,
  which is the update of the entry.
\<close>

definition checkRateLimit :: "nat \<Rightarrow> 'k \<Rightarrow> 'k rateLimitMap \<Rightarrow> bool \<times> 'k rateLimitMap" where
  "checkRateLimit now ip m =
     (case m ip of
        None \<Rightarrow> (True, m(ip \<mapsto> \<lparr>windowStart = now, count = 1\<rparr>))
      | Some r \<Rightarrow>
          if int now - int (windowStart r) > RATE_LIMIT_WINDOW_MS
          then (True, m(ip \<mapsto> \<lparr>windowStart = now, count = 1\<rparr>))
          else if count r \<ge> RATE_LIMIT_MAX_REQUESTS then (False, m)
          else (True, m(ip \<mapsto> r\<lparr>count := count r + 1\<rparr>)))"

fun checkAll :: "(nat \<times> 'k) list \<Rightarrow> 'k rateLimitMap \<Rightarrow> 'k rateLimitMap" where
  \<comment> \<open>a sequence of checks, each with its clock reading and client identity\<close>
  "checkAll [] m = m"
| "checkAll ((now, ip) # calls) m = checkAll calls (snd (checkRateLimit now ip m))"

definition windowCurrent :: "nat \<Rightarrow> RateLimitRecord \<Rightarrow> bool" where
  \<comment> \<open>at clock reading \<open>t\<close> the window of the record has not expired\<close>
  "windowCurrent t r = (int t - int (windowStart r) \<le> RATE_LIMIT_WINDOW_MS)"

definition boundedAt :: "nat \<Rightarrow> 'k rateLimitMap \<Rightarrow> 'k \<Rightarrow> bool" where
  \<comment> \<open>the record of \<open>k\<close>, when there is one and its window is current at \<open>t\<close>, has a count
      within the maximum\<close>
  "boundedAt t m k =
     (case m k of None \<Rightarrow> True | Some r \<Rightarrow> \<not> windowCurrent t r \<or> count r \<le> RATE_LIMIT_MAX_REQUESTS)"

section \<open>The working tree as a file system\<close>

text \<open>
  \<^verbatim>\<open>path.join\<close> on POSIX: the non-empty arguments are joined with a slash and the result
  is normalised. Normalising drops empty and \<^verbatim>\<open>.\<close> segments, and a \<^verbatim>\<open>..\<close> segment removes
  the segment before it; above the start of a relative path it is kept, at the root of
  an absolute path it is dropped.
\<close>

fun splitSlash :: "string \<Rightarrow> string list" where
  "splitSlash [] = [[]]"
| "splitSlash (c # cs) =
     (if c = CHR ''/'' then [] # splitSlash cs
      else (case splitSlash cs of [] \<Rightarrow> [[c]] | s # ss \<Rightarrow> (c # s) # ss))"

fun normalizeSegs :: "bool \<Rightarrow> string list \<Rightarrow> string list \<Rightarrow> string list" where
  \<comment> \<open>\<open>acc\<close> holds the segments kept so far, last one first\<close>
  "normalizeSegs allowAboveRoot acc [] = rev acc"
| "normalizeSegs allowAboveRoot acc (s # ss) =
     (if s = [] \<or> s = ''.'' then normalizeSegs allowAboveRoot acc ss
      else if s = ''..'' then
        (case acc of
           [] \<Rightarrow> normalizeSegs allowAboveRoot (if allowAboveRoot then [s] else []) ss
         | a # as \<Rightarrow>
             if a = ''..'' then normalizeSegs allowAboveRoot (if allowAboveRoot then s # acc else acc) ss
             else normalizeSegs allowAboveRoot as ss)
      else normalizeSegs allowAboveRoot (s # acc) ss)"

fun joinSlash :: "string list \<Rightarrow> string" where
  "joinSlash [] = []"
| "joinSlash [s] = s"
| "joinSlash (s # t # ss) = s @ ''/'' @ joinSlash (t # ss)"

definition isAbsolute :: "string \<Rightarrow> bool" where
  "isAbsolute p = (p \<noteq> [] \<and> hd p = CHR ''/'')"

definition normalize :: "string \<Rightarrow> string" where
  "normalize p =
     (if p = [] then ''.''
      else
        (let trailingSeparator = (last p = CHR ''/'');
             q = joinSlash (normalizeSegs (\<not> isAbsolute p) [] (splitSlash p))
         in if q = [] then (if isAbsolute p then ''/'' else if trailingSeparator then ''./'' else ''.'')
            else (if isAbsolute p then ''/'' else []) @ q @ (if trailingSeparator then ''/'' else [])))"

definition pathJoin :: "string \<Rightarrow> string \<Rightarrow> string" where
  "pathJoin a b =
     (if a = [] \<and> b = [] then ''.''
      else if a = [] then normalize b
      else if b = [] then normalize a
      else normalize (a @ ''/'' @ b))"

text \<open>
  The file system holds directories and files under their resolved paths (the list of
  segments from the root). A relative path resolves against the working directory of the
  process. The operations are the four the server calls: \<^verbatim>\<open>existsSync\<close>, \<^verbatim>\<open>mkdirSync\<close> with
  \<^verbatim>\<open>recursive\<close>, \<^verbatim>\<open>writeFileSync\<close> and \<^verbatim>\<open>rmSync\<close> with \<^verbatim>\<open>recursive\<close> and \<^verbatim>\<open>force\<close>. A write
  throws when its target is a directory or when the directory to hold it is missing. A
  path that holds a null character is refused: \<^verbatim>\<open>existsSync\<close> answers false, the others
  throw.
\<close>

record filesys =
  cwd :: "string list"
  dirs :: "string list list"
  files :: "(string list \<times> string) list"

definition resolve :: "filesys \<Rightarrow> string \<Rightarrow> string list" where
  "resolve fs p =
     (if isAbsolute p then normalizeSegs False [] (splitSlash p)
      else normalizeSegs False (rev (cwd fs)) (splitSlash p))"

definition isDir :: "filesys \<Rightarrow> string list \<Rightarrow> bool" where
  "isDir fs p = (p = [] \<or> p \<in> set (dirs fs))"

definition isFile :: "filesys \<Rightarrow> string list \<Rightarrow> bool" where
  "isFile fs p = (p \<in> set (map fst (files fs)))"

definition existsSync :: "filesys \<Rightarrow> string \<Rightarrow> bool" where
  "existsSync fs path =
     (\<not> hasNul path \<and> (isDir fs (resolve fs path) \<or> isFile fs (resolve fs path)))"

definition ancestors :: "string list \<Rightarrow> string list list" where
  \<comment> \<open>the directories from the first segment down to the path itself\<close>
  "ancestors p = map (\<lambda>n. take n p) [1 ..< Suc (length p)]"

definition mkdirSync :: "filesys \<Rightarrow> string \<Rightarrow> string + filesys" where
  "mkdirSync fs path =
     (let p = resolve fs path
      in if hasNul path then Inl nullBytesError
         else if list_ex (isFile fs) (ancestors p)
         then Inl (''EEXIST: file already exists, mkdir '' @ path)
         else Inr (fs\<lparr>dirs := dirs fs @ filter (\<lambda>d. \<not> isDir fs d) (ancestors p)\<rparr>))"

definition writeFileSync :: "filesys \<Rightarrow> string \<Rightarrow> string \<Rightarrow> string + filesys" where
  "writeFileSync fs path content =
     (let p = resolve fs path
      in if hasNul path then Inl nullBytesError
         else if isDir fs p \<or> last path = CHR ''/''
         then Inl (''EISDIR: illegal operation on a directory, open '' @ path)
         else if \<not> isDir fs (butlast p)
         then Inl (''ENOENT: no such file or directory, open '' @ path)
         else Inr (fs\<lparr>files := (p, content) # filter (\<lambda>f. fst f \<noteq> p) (files fs)\<rparr>))"

definition rmSync :: "filesys \<Rightarrow> string \<Rightarrow> filesys" where
  "rmSync fs path =
     (let p = resolve fs path
      in fs\<lparr>dirs := filter (\<lambda>d. \<not> prefix p d) (dirs fs),
             files := filter (\<lambda>f. \<not> prefix p (fst f)) (files fs)\<rparr>)"

section \<open>Attachment Manager\<close>

text \<open>
  An attachment has an optional name and its payload, the base64 text, which is what the
  model stores in the file. A missing name and an empty one are both falsy, and then the
  file is named after its index with the extension \<^verbatim>\<open>.png\<close>.
\<close>

record image =
  name :: "string option"
  data :: string

definition tempDirOf :: "string \<Rightarrow> string" where
  "tempDirOf repoPath = pathJoin repoPath ''.claude-temp-images''"

definition filenameOf :: "image \<Rightarrow> nat \<Rightarrow> string" where
  "filenameOf img index =
     (case name img of
        None \<Rightarrow> ''image-'' @ decimal index @ ''.png''
      | Some n \<Rightarrow> if n \<noteq> [] then n else ''image-'' @ decimal index @ ''.png'')"

text \<open>
  \<^verbatim>\<open>images.forEach\<close> with the index: the first write that throws ends \<^verbatim>\<open>saveImages\<close>, and
  the files written before it stay. The result is the file system left behind together
  with the error thrown (\<open>Inl\<close>) or the saved paths.
\<close>

fun writeImages ::
  "string \<Rightarrow> filesys \<Rightarrow> nat \<Rightarrow> image list \<Rightarrow> string list \<Rightarrow> filesys \<times> (string + string list)" where
  "writeImages tempDir fs index [] savedPaths = (fs, Inr savedPaths)"
| "writeImages tempDir fs index (img # imgs) savedPaths =
     (let filepath = pathJoin tempDir (filenameOf img index)
      in case writeFileSync fs filepath (data img) of
           Inl e \<Rightarrow> (fs, Inl e)
         | Inr fs' \<Rightarrow> writeImages tempDir fs' (Suc index) imgs (savedPaths @ [filepath]))"

definition saveImages :: "string \<Rightarrow> filesys \<Rightarrow> image list \<Rightarrow> filesys \<times> (string + string list)" where
  "saveImages repoPath fs images =
     (let tempDir = tempDirOf repoPath
      in if \<not> existsSync fs tempDir then
           (case mkdirSync fs tempDir of
              Inl e \<Rightarrow> (fs, Inl e)
            | Inr fs' \<Rightarrow> writeImages tempDir fs' 0 images [])
         else writeImages tempDir fs 0 images [])"

definition cleanupImages :: "string \<Rightarrow> filesys \<Rightarrow> filesys" where
  "cleanupImages repoPath fs =
     (let tempDir = tempDirOf repoPath
      in if existsSync fs tempDir then rmSync fs tempDir else fs)"

definition writtenPaths :: "filesys \<Rightarrow> filesys \<Rightarrow> string list list" where
  \<comment> \<open>the files of \<open>fs'\<close> that \<open>fs\<close> does not hold with the same content\<close>
  "writtenPaths fs fs' = map fst (filter (\<lambda>f. f \<notin> set (files fs)) (files fs'))"

definition inside :: "string list \<Rightarrow> string list \<Rightarrow> bool" where
  \<comment> \<open>\<open>p\<close> lies in the directory \<open>d\<close>\<close>
  "inside d p = strict_prefix d p"

section \<open>The change-request pipeline\<close>

text \<open>
  The configuration is the environment the process starts with. The collaborators of one
  request are given by their outcomes: \<open>exec\<close> is what \<^verbatim>\<open>execSync\<close> does with a command
  line in the working tree (\<open>Inl\<close> the message of the error it throws, \<open>Inr\<close> its standard
  output), \<open>namer\<close> and \<open>agent\<close> are the two child processes, \<open>forge\<close> is the answer of
  the pull-request API, \<open>nowBranch\<close> and \<open>nowCheck\<close> are the readings of \<^verbatim>\<open>Date.now()\<close>
  when the branch is named and when the rate limit is checked, and \<open>agentTree\<close> is what
  the agent leaves of the files it finds.
\<close>

record config =
  REPO_PATH :: string
  API_KEY :: string
  BB_WORKSPACE :: string
  BB_REPO :: string

datatype forge_outcome =
    FetchThrew string
  | NotOk nat string
  | Created string

record env =
  exec :: "string \<Rightarrow> string + string"
  namer :: proc_outcome
  agent :: proc_outcome
  forge :: forge_outcome
  nowBranch :: nat
  nowCheck :: nat
  agentTree :: "filesys \<Rightarrow> filesys"

text \<open>
  What one request does to the outside, in order: a command line given to \<^verbatim>\<open>execSync\<close>, a
  \<^verbatim>\<open>claude\<close> process spawned with its arguments, a pull request posted to the forge (URL,
  source branch, title, description; the destination is always \<^verbatim>\<open>master\<close>, and the
  credentials of the call are not represented), and the removal of the attachment
  directory.
\<close>

datatype event =
    Exec string
  | Spawn "string list"
  | CreatePR string string string string
  | Cleanup

datatype body =
    NoBody
  | ErrorBody string
  | PrBody string string
  | HealthBody bool

record response =
  status :: nat
  body :: body

datatype result =
    Responded response
  | Thrown string

record parsedBody =
  request :: "string option"
  images :: "image list option"

definition isRepoReady :: "config \<Rightarrow> filesys \<Rightarrow> bool" where
  "isRepoReady cfg fs = existsSync fs (pathJoin (REPO_PATH cfg) ''.clone-complete'')"

definition execInRepo :: "env \<Rightarrow> string \<Rightarrow> string + string" where
  "execInRepo e command = (case exec e command of Inl err \<Rightarrow> Inl err | Inr out \<Rightarrow> Inr (trim out))"

definition showCode :: "int option \<Rightarrow> string" where
  "showCode c = (case c of None \<Rightarrow> ''null'' | Some i \<Rightarrow> showInt i)"

fun imageLines :: "nat \<Rightarrow> string list \<Rightarrow> string" where
  "imageLines index [] = []"
| "imageLines index (p # ps) =
     ''- Image '' @ decimal (index + 1) @ '': '' @ p @ ''\<newline>'' @ imageLines (Suc index) ps"

definition claudePrompt :: "string \<Rightarrow> string list \<Rightarrow> string" where
  "claudePrompt req imagePaths =
     ''You are helping to make code changes to this repository.\<newline>\<newline>Request: '' @ req
     @ (if imagePaths \<noteq> [] then
          ''\<newline>\<newline>The following reference image(s) have been provided to help you understand the request:\<newline>''
          @ imageLines 0 imagePaths
          @ ''\<newline>Please examine these images to understand what changes are needed.''
        else [])
     @ ''\<newline>\<newline>Please make the necessary code changes to fulfill this request. After making changes:\<newline>1. Use git add to stage your changes\<newline>2. Use git commit with a descriptive message\<newline>\<newline>Focus only on making the requested changes. Do not make unrelated modifications.''"

definition agentArgs :: "string \<Rightarrow> string list \<Rightarrow> string list" where
  "agentArgs prompt imagePaths =
     [''--print'', ''--model'', ''sonnet'', ''--dangerously-skip-permissions'', ''--allowedTools'',
      ''Edit'', ''Write'', ''Read'', ''Bash(git add:*)'', ''Bash(git commit:*)'', ''-p'', prompt]
     @ imagePaths"

text \<open>
  \<^verbatim>\<open>runClaudeCode\<close> resolves with the buffered standard output on exit code 0 and rejects
  otherwise: with the exit code and the buffered standard error on another code, with the
  error of the \<^verbatim>\<open>error\<close> event when the process could not be started, and with the error
  \<^verbatim>\<open>spawn\<close> throws inside the executor of the promise.
\<close>

definition runClaudeCode :: "env \<Rightarrow> string \<Rightarrow> string list \<Rightarrow> string + string" where
  "runClaudeCode e prompt imagePaths =
     (case spawn (agentArgs prompt imagePaths) (agent e) of
        SpawnThrew err \<Rightarrow> Inl err
      | Closed code out err \<Rightarrow>
          if code = Some 0 then Inr out
          else Inl (''Claude Code exited with code '' @ showCode code @ '': '' @ err)
      | ProcError err \<Rightarrow> Inl err)"

definition prUrl :: "config \<Rightarrow> string" where
  "prUrl cfg =
     ''https://api.bitbucket.org/2.0/repositories/'' @ BB_WORKSPACE cfg @ ''/'' @ BB_REPO cfg
     @ ''/pullrequests''"

definition createBitbucketPR :: "env \<Rightarrow> string + string" where
  "createBitbucketPR e =
     (case forge e of
        FetchThrew err \<Rightarrow> Inl err
      | NotOk st errorText \<Rightarrow> Inl (''Bitbucket API error ('' @ decimal st @ ''): '' @ errorText)
      | Created href \<Rightarrow> Inr href)"

text \<open>
  The handler is followed stage by stage. Every stage returns the commands, processes and
  API calls it started, in order, and how the \<^verbatim>\<open>try\<close> block ends: with a response
  written, or with an error thrown.
\<close>

definition pushCommand :: "string \<Rightarrow> string" where
  "pushCommand currentBranch = ''git push -u origin '' @ [dq] @ currentBranch @ [dq]"

definition publish :: "config \<Rightarrow> env \<Rightarrow> string \<Rightarrow> string \<Rightarrow> event list \<times> result" where
  "publish cfg e req currentBranch =
     (case execInRepo e (pushCommand currentBranch) of
        Inl err \<Rightarrow> ([Exec (pushCommand currentBranch)], Thrown err)
      | Inr _ \<Rightarrow>
          (let prTitle = substring0 100 req;
               prDescription = ''## Description\<newline>\<newline>'' @ req
                 @ ''\<newline>\<newline>---\<newline>*This PR was automatically created by Smarty Agent using Claude Code.*'';
               call = CreatePR (prUrl cfg) currentBranch prTitle prDescription
           in case createBitbucketPR e of
                Inl err \<Rightarrow> ([Exec (pushCommand currentBranch), call], Thrown err)
              | Inr url \<Rightarrow>
                  ([Exec (pushCommand currentBranch), call],
                   Responded \<lparr>status = 200, body = PrBody url currentBranch\<rparr>)))"

definition revParse :: string where
  "revParse = ''git rev-parse --abbrev-ref HEAD''"

definition revList :: "string \<Rightarrow> string" where
  "revList currentBranch = ''git rev-list --count master..'' @ currentBranch"

definition verifyAndPublish :: "config \<Rightarrow> env \<Rightarrow> string \<Rightarrow> event list \<times> result" where
  "verifyAndPublish cfg e req =
     (case execInRepo e revParse of
        Inl err \<Rightarrow> ([Exec revParse], Thrown err)
      | Inr currentBranch \<Rightarrow>
          if \<not> startsWith currentBranch ''claude/'' then
            ([Exec revParse],
             Thrown (''Safety check failed: current branch '' @ [dq] @ currentBranch @ [dq]
                     @ '' is not a claude/* branch''))
          else
            (case execInRepo e (revList currentBranch) of
               Inl err \<Rightarrow> ([Exec revParse, Exec (revList currentBranch)], Thrown err)
             | Inr commitCount \<Rightarrow>
                 if parseInt10 commitCount = Some 0 then
                   ([Exec revParse, Exec (revList currentBranch)],
                    Responded \<lparr>status = 400, body = ErrorBody ''No changes were committed by Claude Code''\<rparr>)
                 else
                   (let (evs, r) = publish cfg e req currentBranch
                    in ([Exec revParse, Exec (revList currentBranch)] @ evs, r))))"

definition runAgent ::
  "config \<Rightarrow> env \<Rightarrow> string \<Rightarrow> string list \<Rightarrow> filesys \<Rightarrow> event list \<times> result \<times> filesys" where
  "runAgent cfg e req imagePaths fs =
     (let prompt = claudePrompt req imagePaths;
          spawned = Spawn (agentArgs prompt imagePaths)
      in case runClaudeCode e prompt imagePaths of
           Inl err \<Rightarrow>
             ([spawned], Thrown err,
              (case spawn (agentArgs prompt imagePaths) (agent e) of
                 Closed _ _ _ \<Rightarrow> agentTree e fs
               | _ \<Rightarrow> fs))
         | Inr _ \<Rightarrow>
             (let (evs, r) = verifyAndPublish cfg e req
              in (spawned # evs, r, agentTree e fs)))"

definition checkoutNew :: "string \<Rightarrow> string" where
  "checkoutNew branchName = ''git checkout -b '' @ [dq] @ branchName @ [dq]"

definition createBranch ::
  "config \<Rightarrow> env \<Rightarrow> string \<Rightarrow> string list \<Rightarrow> filesys \<Rightarrow> event list \<times> result \<times> filesys" where
  "createBranch cfg e req imagePaths fs =
     (case generateBranchName (namer e) req of
        Inl err \<Rightarrow> ([Spawn (namerArgs req)], Thrown err, fs)
      | Inr slug \<Rightarrow>
          (let branchName = branchNameOf slug (nowBranch e)
           in case execInRepo e (checkoutNew branchName) of
                Inl err \<Rightarrow> ([Spawn (namerArgs req), Exec (checkoutNew branchName)], Thrown err, fs)
              | Inr _ \<Rightarrow>
                  (let (evs, r, fs') = runAgent cfg e req imagePaths fs
                   in ([Spawn (namerArgs req), Exec (checkoutNew branchName)] @ evs, r, fs'))))"

definition syncRepo ::
  "config \<Rightarrow> env \<Rightarrow> string \<Rightarrow> string list \<Rightarrow> filesys \<Rightarrow> event list \<times> result \<times> filesys" where
  "syncRepo cfg e req imagePaths fs =
     (case execInRepo e ''git fetch origin'' of
        Inl err \<Rightarrow> ([Exec ''git fetch origin''], Thrown err, fs)
      | Inr _ \<Rightarrow>
     (case execInRepo e ''git checkout master'' of
        Inl err \<Rightarrow> ([Exec ''git fetch origin'', Exec ''git checkout master''], Thrown err, fs)
      | Inr _ \<Rightarrow>
     (case execInRepo e ''git reset --hard origin/master'' of
        Inl err \<Rightarrow>
          ([Exec ''git fetch origin'', Exec ''git checkout master'',
            Exec ''git reset --hard origin/master''], Thrown err, fs)
      | Inr _ \<Rightarrow>
          (let (evs, r, fs') = createBranch cfg e req imagePaths fs
           in ([Exec ''git fetch origin'', Exec ''git checkout master'',
                Exec ''git reset --hard origin/master''] @ evs, r, fs')))))"

text \<open>
  The \<^verbatim>\<open>try\<close> block. Beside the events and the result it returns \<^verbatim>\<open>imagePaths\<close> as the
  \<^verbatim>\<open>finally\<close> block finds it: the variable starts empty and is assigned only when
  \<^verbatim>\<open>saveImages\<close> has returned.
\<close>

definition tryBlock ::
  "config \<Rightarrow> env \<Rightarrow> (string + parsedBody) \<Rightarrow> filesys
   \<Rightarrow> event list \<times> result \<times> string list \<times> filesys" where
  "tryBlock cfg e json fs =
     (if \<not> isRepoReady cfg fs then
        ([], Responded \<lparr>status = 503,
               body = ErrorBody ''Repository is still cloning. Please try again in a moment.''\<rparr>, [], fs)
      else
        (case json of
           Inl err \<Rightarrow> ([], Thrown err, [], fs)
         | Inr b \<Rightarrow>
             (case request b of
                None \<Rightarrow>
                  ([], Responded \<lparr>status = 400,
                         body = ErrorBody (''Missing or invalid '' @ [dq] @ ''request'' @ [dq] @ '' field'')\<rparr>, [], fs)
              | Some req \<Rightarrow>
                  if req = [] then
                    ([], Responded \<lparr>status = 400,
                           body = ErrorBody (''Missing or invalid '' @ [dq] @ ''request'' @ [dq] @ '' field'')\<rparr>, [], fs)
                  else
                    (case (case images b of
                             None \<Rightarrow> (fs, Inr [])
                           | Some imgs \<Rightarrow>
                               if imgs \<noteq> [] then saveImages (REPO_PATH cfg) fs imgs else (fs, Inr [])) of
                       (fs1, Inl err) \<Rightarrow> ([], Thrown err, [], fs1)
                     | (fs1, Inr imagePaths) \<Rightarrow>
                         (let (evs, r, fs2) = syncRepo cfg e req imagePaths fs1
                          in (evs, r, imagePaths, fs2))))))"

definition toResponse :: "result \<Rightarrow> response" where
  \<comment> \<open>the \<^verbatim>\<open>catch\<close> block: an error thrown in the \<^verbatim>\<open>try\<close> block is answered with 500 and its
      message\<close>
  "toResponse r =
     (case r of
        Responded x \<Rightarrow> x
      | Thrown message \<Rightarrow> \<lparr>status = 500, body = ErrorBody message\<rparr>)"

definition handleChangeRequest ::
  "config \<Rightarrow> env \<Rightarrow> (string + parsedBody) \<Rightarrow> filesys \<Rightarrow> response \<times> event list \<times> filesys" where
  "handleChangeRequest cfg e json fs =
     (let (evs, r, imagePaths, fs1) = tryBlock cfg e json fs;
          res = toResponse r
      in if imagePaths \<noteq> [] then (res, evs @ [Cleanup], cleanupImages (REPO_PATH cfg) fs1)
         else (res, evs, fs1))"

definition responseOf :: "config \<Rightarrow> env \<Rightarrow> (string + parsedBody) \<Rightarrow> filesys \<Rightarrow> response" where
  "responseOf cfg e js fs = fst (handleChangeRequest cfg e js fs)"

definition eventsOf :: "config \<Rightarrow> env \<Rightarrow> (string + parsedBody) \<Rightarrow> filesys \<Rightarrow> event list" where
  "eventsOf cfg e js fs = fst (snd (handleChangeRequest cfg e js fs))"

definition treeAfter :: "config \<Rightarrow> env \<Rightarrow> (string + parsedBody) \<Rightarrow> filesys \<Rightarrow> filesys" where
  "treeAfter cfg e js fs = snd (snd (handleChangeRequest cfg e js fs))"


definition isPush :: "event \<Rightarrow> bool" where
  \<comment> \<open>a \<^verbatim>\<open>git push\<close> command line\<close>
  "isPush ev = (case ev of Exec command \<Rightarrow> startsWith command ''git push'' | _ \<Rightarrow> False)"

definition isCreatePR :: "event \<Rightarrow> bool" where
  "isCreatePR ev = (case ev of CreatePR _ _ _ _ \<Rightarrow> True | _ \<Rightarrow> False)"

definition agentInvoked :: "event list \<Rightarrow> bool" where
  \<comment> \<open>the handler called \<^verbatim>\<open>spawn\<close> with the argument list of the coding agent\<close>
  "agentInvoked evs = list_ex (\<lambda>ev. case ev of Spawn args \<Rightarrow> take 3 args = [''--print'', ''--model'', ''sonnet''] | _ \<Rightarrow> False) evs"

definition gitCountOutput :: "nat \<Rightarrow> string" where
  \<comment> \<open>what \<^verbatim>\<open>git rev-list --count\<close> prints for a count: the number and a line feed\<close>
  "gitCountOutput n = decimal n @ ''\<newline>''"

section \<open>Request Gate\<close>

record httpRequest =
  httpMethod :: string
  pathname :: string
  authorization :: "string option"
  forwardedFor :: "string option"
  remoteAddress :: "string option"
  json :: "string + parsedBody"

record serverState =
  rateLimits :: "string option rateLimitMap"
  tree :: filesys

definition clientIpOf :: "httpRequest \<Rightarrow> string option" where
  \<comment> \<open>\<^verbatim>\<open>req.headers["x-forwarded-for"]?.split(",")[0]?.trim() || req.socket.remoteAddress\<close>\<close>
  "clientIpOf req =
     (case forwardedFor req of
        None \<Rightarrow> remoteAddress req
      | Some h \<Rightarrow>
          (let first = trim (takeWhile (\<lambda>c. c \<noteq> CHR '','') h)
           in if first \<noteq> [] then Some first else remoteAddress req))"

definition isAuthenticated :: "config \<Rightarrow> httpRequest \<Rightarrow> bool" where
  "isAuthenticated cfg req =
     (case authorization req of
        None \<Rightarrow> False
      | Some authHeader \<Rightarrow>
          if authHeader = [] \<or> \<not> startsWith authHeader ''Bearer '' then False
          else drop 7 authHeader = API_KEY cfg)"

definition handleHealth :: "config \<Rightarrow> filesys \<Rightarrow> response" where
  "handleHealth cfg fs = \<lparr>status = 200, body = HealthBody (isRepoReady cfg fs)\<rparr>"

text \<open>
  The request listener, with the handler it dispatches to run to its end. The response
  headers (CORS) are not represented.
\<close>

definition server ::
  "config \<Rightarrow> env \<Rightarrow> httpRequest \<Rightarrow> serverState \<Rightarrow> (response \<times> event list) \<times> serverState" where
  "server cfg e req st =
     (if httpMethod req = ''OPTIONS'' then ((\<lparr>status = 204, body = NoBody\<rparr>, []), st)
      else if httpMethod req = ''GET'' \<and> pathname req = ''/health'' then ((handleHealth cfg (tree st), []), st)
      else if \<not> isAuthenticated cfg req then
        ((\<lparr>status = 401, body = ErrorBody ''Unauthorized''\<rparr>, []), st)
      else
        (let (allowed, m) = checkRateLimit (nowCheck e) (clientIpOf req) (rateLimits st)
         in if \<not> allowed then
              ((\<lparr>status = 429, body = ErrorBody ''Too many requests. Please try again later.''\<rparr>, []),
               st\<lparr>rateLimits := m\<rparr>)
            else if httpMethod req = ''POST'' \<and> pathname req = ''/'' then
              (let (res, evs, fs') = handleChangeRequest cfg e (json req) (tree st)
               in ((res, evs), \<lparr>rateLimits = m, tree = fs'\<rparr>))
            else ((\<lparr>status = 404, body = ErrorBody ''Not found''\<rparr>, []), st\<lparr>rateLimits := m\<rparr>)))"

section \<open>What the claims speak of\<close>

definition passesOn :: "event list \<times> result \<Rightarrow> event list \<times> result \<Rightarrow> bool" where
  \<comment> \<open>a stage around the agent stage adds no push and no pull request of its own, and
      when it gets as far as the agent it ends as the agent stage ends\<close>
  "passesOn outer inner =
     (list_ex isPush (fst outer) = (agentInvoked (fst outer) \<and> list_ex isPush (fst inner))
      \<and> list_ex isCreatePR (fst outer) = (agentInvoked (fst outer) \<and> list_ex isCreatePR (fst inner))
      \<and> (agentInvoked (fst outer) \<longrightarrow> snd outer = snd inner))"

definition consumesUnit :: "config \<Rightarrow> env \<Rightarrow> httpRequest \<Rightarrow> serverState \<Rightarrow> bool" where
  \<comment> \<open>the request starts a new window for its client or increments the count of the
      client's record\<close>
  "consumesUnit cfg e req st =
     (let k = clientIpOf req;
          after = rateLimits (snd (server cfg e req st)) k;
          fresh = Some \<lparr>windowStart = nowCheck e, count = 1\<rparr>
      in case rateLimits st k of
           None \<Rightarrow> after = fresh
         | Some r \<Rightarrow> after = fresh \<or> after = Some (r\<lparr>count := count r + 1\<rparr>))"

definition gated :: "config \<Rightarrow> httpRequest \<Rightarrow> bool" where
  \<comment> \<open>the requests that reach the rate-limit check of the listener\<close>
  "gated cfg req =
     (httpMethod req \<noteq> ''OPTIONS'' \<and> \<not> (httpMethod req = ''GET'' \<and> pathname req = ''/health'')
      \<and> isAuthenticated cfg req)"

definition statusOf :: "config \<Rightarrow> env \<Rightarrow> httpRequest \<Rightarrow> serverState \<Rightarrow> nat" where
  \<comment> \<open>the status the listener answers with\<close>
  "statusOf cfg e req st = status (fst (fst (server cfg e req st)))"

section \<open>Example inputs\<close>

text \<open>Concrete inputs, at which the theorems below are instantiated.\<close>

definition cfg0 :: config where
  "cfg0 = \<lparr>REPO_PATH = ''/workspace/repo'', API_KEY = ''secret'', BB_WORKSPACE = ''smarty'', BB_REPO = ''site''\<rparr>"

definition fs0 :: filesys where
  "fs0 = \<lparr>cwd = [''app''], dirs = [[''workspace''], [''workspace'', ''repo'']],
           files = [([''workspace'', ''repo'', ''.clone-complete''], [])]\<rparr>"

definition env0 :: env where
  "env0 = \<lparr>exec = (\<lambda>command. Inr []), namer = Closed (Some 0) ''fix-login\<newline>'' [],
            agent = Closed (Some 0) ''done'' [], forge = Created ''https://bitbucket.org/smarty/site/pull-requests/7'',
            nowBranch = 1700000000123, nowCheck = 1700000000000, agentTree = (\<lambda>fs. fs)\<rparr>"

definition post0 :: httpRequest where
  "post0 = \<lparr>httpMethod = ''POST'', pathname = ''/'', authorization = Some ''Bearer secret'',
             forwardedFor = Some ''10.0.0.7, 10.0.0.1'', remoteAddress = Some ''172.17.0.1'',
             json = Inr \<lparr>request = Some ''Fix login'', images = None\<rparr>\<rparr>"

definition st5 :: serverState where
  "st5 = \<lparr>rateLimits = [Some ''10.0.0.7'' \<mapsto> \<lparr>windowStart = 1699999000000, count = 5\<rparr>], tree = fs0\<rparr>"

definition js0 :: "string + parsedBody" where
  "js0 = Inr \<lparr>request = Some ''Fix login'', images = None\<rparr>"

definition envUnsafe :: env where
  "envUnsafe = env0\<lparr>exec := (\<lambda>command. Inr (if command = revParse then ''master\<newline>'' else ''3\<newline>''))\<rparr>"

definition envNoCommits :: env where
  "envNoCommits = env0\<lparr>exec := (\<lambda>command.
      Inr (if command = revParse then ''claude/fix-login-1700000000123\<newline>'' else ''0\<newline>''))\<rparr>"



definition nulRequest :: string where
  \<comment> \<open>the request text \<^verbatim>\<open>a\u0000b\<close>\<close>
  "nulRequest = [CHR ''a'', CHR 0x00, CHR ''b'']"

definition jsNul :: "string + parsedBody" where
  "jsNul = Inr \<lparr>request = Some nulRequest, images = None\<rparr>"

definition escapingImages :: "image list" where
  "escapingImages = [\<lparr>name = Some ''../evil.js'', data = ''YWxlcnQoMSk=''\<rparr>]"

definition partialImages :: "image list" where
  "partialImages = [\<lparr>name = Some ''a.png'', data = ''iVBORw0KGgo=''\<rparr>,
                    \<lparr>name = Some ''sub/b.png'', data = ''iVBORw0KGgo=''\<rparr>]"

definition jsPartial :: "string + parsedBody" where
  "jsPartial = Inr \<lparr>request = Some ''Fix login'', images = Some partialImages\<rparr>"

definition treePartial :: filesys where
  "treePartial =
     \<lparr>cwd = [''app''],
      dirs = [[''workspace''], [''workspace'', ''repo''], [''workspace'', ''repo'', ''.claude-temp-images'']],
      files = [([''workspace'', ''repo'', ''.claude-temp-images'', ''a.png''], ''iVBORw0KGgo=''),
               ([''workspace'', ''repo'', ''.clone-complete''], [])]\<rparr>"

definition get404 :: httpRequest where
  "get404 = post0\<lparr>httpMethod := ''GET'', pathname := ''/status''\<rparr>"

definition stEmpty :: serverState where
  "stEmpty = \<lparr>rateLimits = Map.empty, tree = fs0\<rparr>"

definition stCloning :: serverState where
  "stCloning = \<lparr>rateLimits = Map.empty,
                 tree = \<lparr>cwd = [''app''], dirs = [[''workspace''], [''workspace'', ''repo'']], files = []\<rparr>\<rparr>"

section \<open>Properties of the rate limiter\<close>

lemma checkRateLimit_cases:
  "snd (checkRateLimit now ip m) k = m k
   \<or> (\<exists>r. snd (checkRateLimit now ip m) k = Some r \<and> count r \<le> RATE_LIMIT_MAX_REQUESTS)"
  by (auto simp: checkRateLimit_def RATE_LIMIT_MAX_REQUESTS_def split: option.splits)

lemma checkRateLimit_bounded:
  "boundedAt t m k \<Longrightarrow> boundedAt t (snd (checkRateLimit now ip m)) k"
  using checkRateLimit_cases [of now ip m k]
  by (auto simp: boundedAt_def split: option.splits)

lemma checkAll_bounded:
  "boundedAt t m k \<Longrightarrow> boundedAt t (checkAll calls m) k"
proof (induction calls arbitrary: m)
  case Nil
  then show ?case by simp
next
  case (Cons c calls)
  obtain now ip where c: "c = (now, ip)" by (cases c)
  from Cons.prems have "boundedAt t (snd (checkRateLimit now ip m)) k"
    by (rule checkRateLimit_bounded)
  then show ?case unfolding c by (simp add: Cons.IH)
qed

text \<open>
  C7. After any sequence of checks that starts from the empty table, the record of every
  client identity \<open>k\<close> whose window is current at a clock reading \<open>t\<close> has a count of at
  most \<open>RATE_LIMIT_MAX_REQUESTS\<close>; and one more check, by any identity at any time, of a
  table with that property leaves a table with that property.
\<close>

theorem rate_limit_invariant:
  "boundedAt t (checkAll calls Map.empty) k
   \<and> (boundedAt t m k \<longrightarrow> boundedAt t (snd (checkRateLimit now ip m)) k)"
proof -
  have "boundedAt t (Map.empty :: 'a rateLimitMap) k"
    by (simp add: boundedAt_def)
  then have "boundedAt t (checkAll calls Map.empty) k"
    by (rule checkAll_bounded)
  then show ?thesis
    by (simp add: checkRateLimit_bounded)
qed

theorem rate_limit_invariant_witness:
  "checkAll [(0, ''a''), (1, ''b''), (2, ''a'')] Map.empty ''a'' = Some \<lparr>windowStart = 0, count = 2\<rparr>
   \<and> boundedAt 5 (checkAll [(0, ''a''), (1, ''b''), (2, ''a'')] Map.empty) ''a''
   \<and> boundedAt 7 [''a'' \<mapsto> \<lparr>windowStart = 0, count = 4\<rparr>] ''a''
   \<and> snd (checkRateLimit 6 ''a'' [''a'' \<mapsto> \<lparr>windowStart = 0, count = 4\<rparr>]) ''a''
       = Some \<lparr>windowStart = 0, count = 5\<rparr>
   \<and> boundedAt 7 (snd (checkRateLimit 6 ''a'' [''a'' \<mapsto> \<lparr>windowStart = 0, count = 4\<rparr>])) ''a''"
  using rate_limit_invariant [of 5 "[(0, ''a''), (1, ''b''), (2, ''a'')]" "''a''"
      "[''a'' \<mapsto> \<lparr>windowStart = 0, count = 4\<rparr>]" 6 "''a''"]
    rate_limit_invariant [of 7 "[]" "''a''" "[''a'' \<mapsto> \<lparr>windowStart = 0, count = 4\<rparr>]" 6 "''a''"]
  by (simp add: checkRateLimit_def boundedAt_def windowCurrent_def RATE_LIMIT_MAX_REQUESTS_def
      RATE_LIMIT_WINDOW_MS_def)

section \<open>Properties of the branch namer\<close>

lemma of_char_digitChar: "d < 10 \<Longrightarrow> (of_char (digitChar d) :: nat) = 48 + d"
proof -
  assume "d < 10"
  then have "d \<in> {0, 1, 2, 3, 4, 5, 6, 7, 8, 9}"
    by auto
  then show ?thesis
    by (auto simp: digitChar_def)
qed

lemma isDigit_digitChar: "d < 10 \<Longrightarrow> isDigit (digitChar d)"
  by (simp add: isDigit_def of_char_digitChar)


lemma decimal_digits: "list_all isDigit (decimal n)"
proof (induction n rule: decimal.induct)
  case (1 n)
  show ?case
  proof (cases "n < 10")
    case True
    then show ?thesis by (subst decimal.simps) (simp add: isDigit_digitChar)
  next
    case False
    with 1 show ?thesis by (subst decimal.simps) (simp add: isDigit_digitChar)
  qed
qed



















lemma hasNul_simps [simp]:
  "hasNul [] = False"
  "hasNul (c # s) = (c = CHR 0x00 \<or> hasNul s)"
  "hasNul (a @ b) = (hasNul a \<or> hasNul b)"
  by (auto simp: hasNul_def)

lemma namerArgs_nul: "list_ex hasNul (namerArgs t) = hasNul t"
  by (simp add: namerArgs_def dq_def)

lemma spawn_namer: "\<not> hasNul t \<Longrightarrow> spawn (namerArgs t) p = p"
  by (simp add: spawn_def namerArgs_nul)

lemma generateBranchName_nul: "hasNul t \<Longrightarrow> generateBranchName p t = Inl nullBytesError"
  by (simp add: generateBranchName_def spawn_def namerArgs_nul)



lemma generateBranchName_resolves:
  assumes "\<not> hasNul t" "p = Closed code out err \<or> p = ProcError e"
  shows "\<exists>slug. generateBranchName p t = Inr slug"
  using assms by (auto simp: generateBranchName_def spawn_namer Let_def)




lemma slugify_Nil: "slugify [] = []"
  by (simp add: slugify_def toLowerCase_def trim_def stripNonWord_def trimHyphens_def)




text \<open>
  What the assisted naming does when \<^verbatim>\<open>spawn\<close> starts the process: it resolves, and when the
  process exits with another code than 0, cannot be started, or prints nothing but white
  space, the slug is the deterministic slug of the same request text, cut to 30 characters.
\<close>

lemma namer_fallback:
  assumes "\<not> hasNul t"
  shows "(p = Closed code out err \<or> p = ProcError e \<longrightarrow> (\<exists>slug. generateBranchName p t = Inr slug))
   \<and> ((p = Closed code out err \<and> code \<noteq> Some 0) \<or> p = ProcError e
        \<or> (p = Closed (Some 0) out err \<and> trim out = [])
      \<longrightarrow> generateBranchName p t = Inr (substring0 30 (slugify t)))"
  using assms
  by (auto simp: generateBranchName_def spawn_namer slugify_Nil substring0_def)

section \<open>The rate-limit check\<close>

text \<open>
  C6. A check for a client identity that has no record, or whose recorded window started
  more than the window length ago, starts a new window with count 1 and allows the
  request. Otherwise a count at or above the maximum denies the request and leaves the
  table as it is, and the server answers 429; a count below the maximum is incremented
  and the request is allowed. With the maximum of 5, five checks inside one window that
  was started by the first of them bring the count to 5, and a sixth inside that window
  is denied.
\<close>

theorem rate_limit_check:
  "(m ip = None \<or> (m ip = Some r \<and> int now - int (windowStart r) > RATE_LIMIT_WINDOW_MS)
      \<longrightarrow> checkRateLimit now ip m = (True, m(ip \<mapsto> \<lparr>windowStart = now, count = 1\<rparr>)))
   \<and> (m ip = Some r \<and> \<not> int now - int (windowStart r) > RATE_LIMIT_WINDOW_MS
        \<and> count r \<ge> RATE_LIMIT_MAX_REQUESTS
      \<longrightarrow> checkRateLimit now ip m = (False, m))
   \<and> (m ip = Some r \<and> \<not> int now - int (windowStart r) > RATE_LIMIT_WINDOW_MS
        \<and> count r < RATE_LIMIT_MAX_REQUESTS
      \<longrightarrow> checkRateLimit now ip m = (True, m(ip \<mapsto> r\<lparr>count := count r + 1\<rparr>)))
   \<and> (httpMethod req \<noteq> ''OPTIONS'' \<and> \<not> (httpMethod req = ''GET'' \<and> pathname req = ''/health'')
        \<and> isAuthenticated cfg req
        \<and> \<not> fst (checkRateLimit (nowCheck e) (clientIpOf req) (rateLimits st))
      \<longrightarrow> status (fst (fst (server cfg e req st))) = 429)
   \<and> (RATE_LIMIT_MAX_REQUESTS = 5
        \<and> (m ip = None \<or> (m ip = Some r \<and> int t1 - int (windowStart r) > RATE_LIMIT_WINDOW_MS))
        \<and> int t2 - int t1 \<le> RATE_LIMIT_WINDOW_MS \<and> int t3 - int t1 \<le> RATE_LIMIT_WINDOW_MS
        \<and> int t4 - int t1 \<le> RATE_LIMIT_WINDOW_MS \<and> int t5 - int t1 \<le> RATE_LIMIT_WINDOW_MS
        \<and> int t6 - int t1 \<le> RATE_LIMIT_WINDOW_MS
      \<longrightarrow> (let m5 = checkAll [(t1, ip), (t2, ip), (t3, ip), (t4, ip), (t5, ip)] m
           in m5 ip = Some \<lparr>windowStart = t1, count = 5\<rparr> \<and> \<not> fst (checkRateLimit t6 ip m5)))"
proof (intro conjI impI)
  show "checkRateLimit now ip m = (True, m(ip \<mapsto> \<lparr>windowStart = now, count = 1\<rparr>))"
    if "m ip = None \<or> (m ip = Some r \<and> int now - int (windowStart r) > RATE_LIMIT_WINDOW_MS)"
    using that by (auto simp: checkRateLimit_def)
  show "checkRateLimit now ip m = (False, m)"
    if "m ip = Some r \<and> \<not> int now - int (windowStart r) > RATE_LIMIT_WINDOW_MS
        \<and> count r \<ge> RATE_LIMIT_MAX_REQUESTS"
    using that by (simp add: checkRateLimit_def)
  show "checkRateLimit now ip m = (True, m(ip \<mapsto> r\<lparr>count := count r + 1\<rparr>))"
    if "m ip = Some r \<and> \<not> int now - int (windowStart r) > RATE_LIMIT_WINDOW_MS
        \<and> count r < RATE_LIMIT_MAX_REQUESTS"
    using that by (simp add: checkRateLimit_def)
  show "status (fst (fst (server cfg e req st))) = 429"
    if "httpMethod req \<noteq> ''OPTIONS'' \<and> \<not> (httpMethod req = ''GET'' \<and> pathname req = ''/health'')
        \<and> isAuthenticated cfg req
        \<and> \<not> fst (checkRateLimit (nowCheck e) (clientIpOf req) (rateLimits st))"
    using that by (auto simp: server_def split: prod.splits)
  show "let m5 = checkAll [(t1, ip), (t2, ip), (t3, ip), (t4, ip), (t5, ip)] m
        in m5 ip = Some \<lparr>windowStart = t1, count = 5\<rparr> \<and> \<not> fst (checkRateLimit t6 ip m5)"
    if "RATE_LIMIT_MAX_REQUESTS = 5
        \<and> (m ip = None \<or> (m ip = Some r \<and> int t1 - int (windowStart r) > RATE_LIMIT_WINDOW_MS))
        \<and> int t2 - int t1 \<le> RATE_LIMIT_WINDOW_MS \<and> int t3 - int t1 \<le> RATE_LIMIT_WINDOW_MS
        \<and> int t4 - int t1 \<le> RATE_LIMIT_WINDOW_MS \<and> int t5 - int t1 \<le> RATE_LIMIT_WINDOW_MS
        \<and> int t6 - int t1 \<le> RATE_LIMIT_WINDOW_MS"
    using that by (auto simp: checkRateLimit_def Let_def)
qed

lemma clientIp_post0: "clientIpOf post0 = Some ''10.0.0.7''"
  by code_simp

lemma auth_post0: "isAuthenticated cfg0 post0"
  by code_simp

theorem rate_limit_check_witness:
  "checkRateLimit 1000 ''a'' Map.empty = (True, [''a'' \<mapsto> \<lparr>windowStart = 1000, count = 1\<rparr>])
   \<and> checkRateLimit 86400001 ''a'' [''a'' \<mapsto> \<lparr>windowStart = 0, count = 5\<rparr>]
       = (True, [''a'' \<mapsto> \<lparr>windowStart = 86400001, count = 1\<rparr>])
   \<and> checkRateLimit 86400000 ''a'' [''a'' \<mapsto> \<lparr>windowStart = 0, count = 5\<rparr>]
       = (False, [''a'' \<mapsto> \<lparr>windowStart = 0, count = 5\<rparr>])
   \<and> checkRateLimit 86400000 ''a'' [''a'' \<mapsto> \<lparr>windowStart = 0, count = 4\<rparr>]
       = (True, [''a'' \<mapsto> \<lparr>windowStart = 0, count = 5\<rparr>])
   \<and> status (fst (fst (server cfg0 env0 post0 st5))) = 429
   \<and> checkAll [(10, ''a''), (20, ''a''), (30, ''a''), (40, ''a''), (50, ''a'')] Map.empty ''a''
       = Some \<lparr>windowStart = 10, count = 5\<rparr>
   \<and> \<not> fst (checkRateLimit 60 ''a''
         (checkAll [(10, ''a''), (20, ''a''), (30, ''a''), (40, ''a''), (50, ''a'')] Map.empty))"
proof -
  have c: "\<not> fst (checkRateLimit (nowCheck env0) (clientIpOf post0) (rateLimits st5))"
    by (simp add: clientIp_post0 checkRateLimit_def st5_def env0_def RATE_LIMIT_WINDOW_MS_def
        RATE_LIMIT_MAX_REQUESTS_def)
  have m: "httpMethod post0 \<noteq> ''OPTIONS'' \<and> \<not> (httpMethod post0 = ''GET'' \<and> pathname post0 = ''/health'')"
    by (simp add: post0_def)
  note i1 = rate_limit_check [of Map.empty "''a''" _ 1000 post0 cfg0 env0 st5 10 20 30 40 50 60]
  note i2 = rate_limit_check [of "[''a'' \<mapsto> \<lparr>windowStart = 0, count = 5\<rparr>]" "''a''"
      "\<lparr>windowStart = 0, count = 5\<rparr>" 86400001]
  note i3 = rate_limit_check [of "[''a'' \<mapsto> \<lparr>windowStart = 0, count = 5\<rparr>]" "''a''"
      "\<lparr>windowStart = 0, count = 5\<rparr>" 86400000]
  note i4 = rate_limit_check [of "[''a'' \<mapsto> \<lparr>windowStart = 0, count = 4\<rparr>]" "''a''"
      "\<lparr>windowStart = 0, count = 4\<rparr>" 86400000]
  from i1 i2 i3 i4 c m auth_post0 show ?thesis
    by (simp add: RATE_LIMIT_WINDOW_MS_def RATE_LIMIT_MAX_REQUESTS_def Let_def)
qed

section \<open>Properties of the pipeline\<close>

lemma agentInvoked_simps [simp]:
  "agentInvoked [] = False"
  "agentInvoked (Exec c # evs) = agentInvoked evs"
  "agentInvoked (Spawn (namerArgs req) # evs) = agentInvoked evs"
  "agentInvoked (Spawn (agentArgs p ips) # evs) = True"
  "agentInvoked (evs @ [Cleanup]) = agentInvoked evs"
  by (simp_all add: agentInvoked_def namerArgs_def agentArgs_def)

lemma isPush_simps [simp]:
  "isPush (Exec ''git fetch origin'') = False"
  "isPush (Exec ''git checkout master'') = False"
  "isPush (Exec ''git reset --hard origin/master'') = False"
  "isPush (Exec (checkoutNew b)) = False"
  "isPush (Exec revParse) = False"
  "isPush (Exec (revList b)) = False"
  "isPush (Exec (pushCommand b)) = True"
  "isPush (Spawn args) = False"
  "isPush (CreatePR u s t d) = False"
  "isPush Cleanup = False"
  by (simp_all add: isPush_def startsWith_def checkoutNew_def revParse_def revList_def pushCommand_def)

lemma isCreatePR_simps [simp]:
  "isCreatePR (Exec c) = False"
  "isCreatePR (Spawn args) = False"
  "isCreatePR (CreatePR u s t d) = True"
  "isCreatePR Cleanup = False"
  by (simp_all add: isCreatePR_def)

text \<open>
  No argument of the agent holds a null character when the request text and the saved
  paths hold none; and the paths \<^verbatim>\<open>saveImages\<close> returns hold none, since every one of them
  was written to.
\<close>

lemma digits_noNul: "list_all isDigit s \<Longrightarrow> \<not> hasNul s"
  by (auto simp: hasNul_def list_all_iff isDigit_def)

lemma imageLines_noNul: "\<not> list_ex hasNul ips \<Longrightarrow> \<not> hasNul (imageLines i ips)"
  by (induction ips arbitrary: i) (simp_all add: digits_noNul decimal_digits)

lemma claudePrompt_noNul:
  "\<not> hasNul req \<Longrightarrow> \<not> list_ex hasNul ips \<Longrightarrow> \<not> hasNul (claudePrompt req ips)"
  by (simp add: claudePrompt_def imageLines_noNul)

lemma spawn_agent:
  assumes "\<not> hasNul req" "\<not> list_ex hasNul ips"
  shows "spawn (agentArgs (claudePrompt req ips) ips) p = p"
  using assms claudePrompt_noNul [OF assms]
  by (simp add: spawn_def agentArgs_def)

lemma writeImages_noNul:
  "writeImages tempDir fs i imgs saved = (fs', Inr paths) \<Longrightarrow> \<not> list_ex hasNul saved
     \<Longrightarrow> \<not> list_ex hasNul paths"
proof (induction imgs arbitrary: fs i saved)
  case Nil
  then show ?case by simp
next
  case (Cons img imgs)
  let ?path = "pathJoin tempDir (filenameOf img i)"
  from Cons.prems(1) obtain fs1 where w: "writeFileSync fs ?path (data img) = Inr fs1"
    and r: "writeImages tempDir fs1 (Suc i) imgs (saved @ [?path]) = (fs', Inr paths)"
    by (auto simp: Let_def split: sum.splits)
  from w have "\<not> hasNul ?path"
    by (auto simp: writeFileSync_def Let_def split: if_splits)
  with Cons.prems(2) have "\<not> list_ex hasNul (saved @ [?path])"
    by simp
  with r show ?case by (rule Cons.IH)
qed

lemma saveImages_noNul:
  "saveImages repoPath fs imgs = (fs', Inr paths) \<Longrightarrow> \<not> list_ex hasNul paths"
  by (auto simp: saveImages_def Let_def split: if_splits sum.splits dest: writeImages_noNul)

text \<open>
  The stages of the handler. When the agent exits with code 0 the handler goes on to the
  safety verifier; the stages before the agent push nothing and call no API, and the
  response is the one the \<^verbatim>\<open>catch\<close> block makes of the result of the agent stage.
\<close>

lemma runAgent_ok:
  assumes "agent e = Closed (Some 0) out err" "\<not> hasNul req" "\<not> list_ex hasNul ips"
  shows "runAgent cfg e req ips fs =
    (Spawn (agentArgs (claudePrompt req ips) ips) # fst (verifyAndPublish cfg e req),
     snd (verifyAndPublish cfg e req), agentTree e fs)"
  using assms(1)
  by (simp add: runAgent_def runClaudeCode_def spawn_agent [OF assms(2,3)] Let_def split: prod.splits)


lemma runAgent_invoked: "agentInvoked (fst (runAgent cfg e req ips fs))"
  by (simp add: runAgent_def Let_def split: sum.splits prod.splits)

lemma createBranch_passes:
  "passesOn (fst (createBranch cfg e req ips fs), fst (snd (createBranch cfg e req ips fs)))
     (fst (runAgent cfg e req ips fs), fst (snd (runAgent cfg e req ips fs)))"
  using runAgent_invoked [of cfg e req ips fs]
  unfolding createBranch_def passesOn_def
  by (auto simp: Let_def split: sum.splits prod.splits)

lemma createBranch_noNul: "agentInvoked (fst (createBranch cfg e req ips fs)) \<Longrightarrow> \<not> hasNul req"
  by (auto simp: createBranch_def generateBranchName_nul Let_def split: sum.splits prod.splits)

lemma syncRepo_noNul: "agentInvoked (fst (syncRepo cfg e req ips fs)) \<Longrightarrow> \<not> hasNul req"
  using createBranch_noNul [of cfg e req ips fs]
  by (auto simp: syncRepo_def Let_def split: sum.splits prod.splits)

lemma syncRepo_passes:
  "passesOn (fst (syncRepo cfg e req ips fs), fst (snd (syncRepo cfg e req ips fs)))
     (fst (runAgent cfg e req ips fs), fst (snd (runAgent cfg e req ips fs)))"
  using createBranch_passes [of cfg e req ips fs]
  unfolding syncRepo_def passesOn_def
  by (auto simp: Let_def split: sum.splits prod.splits)

lemma tryBlock_cases:
  "fst (tryBlock cfg e js fs) = []
   \<or> (\<exists>b req ips fs1. js = Inr b \<and> request b = Some req \<and> req \<noteq> [] \<and> \<not> list_ex hasNul ips
        \<and> fst (tryBlock cfg e js fs) = fst (syncRepo cfg e req ips fs1)
        \<and> fst (snd (tryBlock cfg e js fs)) = fst (snd (syncRepo cfg e req ips fs1)))"
proof -
  have n: "\<not> list_ex hasNul ([] :: string list)"
    by simp
  show ?thesis
    unfolding tryBlock_def
    by (auto simp: Let_def split: sum.splits option.splits prod.splits dest: saveImages_noNul)
      (metis fst_conv snd_conv n saveImages_noNul)+
qed

lemma handler_projections:
  "responseOf cfg e js fs = toResponse (fst (snd (tryBlock cfg e js fs)))
   \<and> agentInvoked (eventsOf cfg e js fs) = agentInvoked (fst (tryBlock cfg e js fs))
   \<and> list_ex isPush (eventsOf cfg e js fs) = list_ex isPush (fst (tryBlock cfg e js fs))
   \<and> list_ex isCreatePR (eventsOf cfg e js fs) = list_ex isCreatePR (fst (tryBlock cfg e js fs))"
  unfolding responseOf_def eventsOf_def handleChangeRequest_def
  by (auto simp: Let_def split: prod.splits)

lemma handler_passes:
  "\<not> agentInvoked (eventsOf cfg e js fs) \<and> \<not> list_ex isPush (eventsOf cfg e js fs)
     \<and> \<not> list_ex isCreatePR (eventsOf cfg e js fs)
   \<or> (\<exists>b req ips fs1. js = Inr b \<and> request b = Some req \<and> req \<noteq> []
        \<and> \<not> hasNul req \<and> \<not> list_ex hasNul ips
        \<and> list_ex isPush (eventsOf cfg e js fs) = list_ex isPush (fst (runAgent cfg e req ips fs1))
        \<and> list_ex isCreatePR (eventsOf cfg e js fs) = list_ex isCreatePR (fst (runAgent cfg e req ips fs1))
        \<and> responseOf cfg e js fs = toResponse (fst (snd (runAgent cfg e req ips fs1))))"
proof -
  note p = handler_projections [of cfg e js fs]
  from tryBlock_cases [of cfg e js fs] show ?thesis
  proof
    assume "fst (tryBlock cfg e js fs) = []"
    with p show ?thesis by simp
  next
    assume "\<exists>b req ips fs1. js = Inr b \<and> request b = Some req \<and> req \<noteq> [] \<and> \<not> list_ex hasNul ips
        \<and> fst (tryBlock cfg e js fs) = fst (syncRepo cfg e req ips fs1)
        \<and> fst (snd (tryBlock cfg e js fs)) = fst (snd (syncRepo cfg e req ips fs1))"
    then obtain b req ips fs1 where h: "js = Inr b" "request b = Some req" "req \<noteq> []"
        "\<not> list_ex hasNul ips"
        "fst (tryBlock cfg e js fs) = fst (syncRepo cfg e req ips fs1)"
        "fst (snd (tryBlock cfg e js fs)) = fst (snd (syncRepo cfg e req ips fs1))"
      by blast
    note s = syncRepo_passes [of cfg e req ips fs1, unfolded passesOn_def, simplified]
    show ?thesis
    proof (cases "agentInvoked (fst (syncRepo cfg e req ips fs1))")
      case False
      with p h s show ?thesis by simp
    next
      case True
      then have n: "\<not> hasNul req"
        by (rule syncRepo_noNul)
      from True p h s have "list_ex isPush (eventsOf cfg e js fs) = list_ex isPush (fst (runAgent cfg e req ips fs1))
        \<and> list_ex isCreatePR (eventsOf cfg e js fs) = list_ex isCreatePR (fst (runAgent cfg e req ips fs1))
        \<and> responseOf cfg e js fs = toResponse (fst (snd (runAgent cfg e req ips fs1)))"
        by simp
      with h n show ?thesis by blast
    qed
  qed
qed

lemma verify_unsafe:
  assumes "exec e revParse = Inr b" "\<not> startsWith (trim b) ''claude/''"
  shows "verifyAndPublish cfg e req =
    ([Exec revParse], Thrown (''Safety check failed: current branch '' @ [dq] @ trim b @ [dq]
                     @ '' is not a claude/* branch''))"
  using assms by (simp add: verifyAndPublish_def execInRepo_def)

lemma parseInt10_zero: "parseInt10 (trim (gitCountOutput 0)) = Some 0"
  by code_simp

lemma verify_no_commits:
  assumes "exec e revParse = Inr b" "startsWith (trim b) ''claude/''"
    "exec e (revList (trim b)) = Inr (gitCountOutput 0)"
  shows "verifyAndPublish cfg e req =
    ([Exec revParse, Exec (revList (trim b))],
     Responded \<lparr>status = 400, body = ErrorBody ''No changes were committed by Claude Code''\<rparr>)"
  using assms by (simp add: verifyAndPublish_def execInRepo_def parseInt10_zero)

text \<open>
  C1. When the handler has started the agent, the agent exits with code 0 and the branch
  read afterwards (the trimmed output of \<^verbatim>\<open>git rev-parse --abbrev-ref HEAD\<close>) does not start
  with \<^verbatim>\<open>claude/\<close>, the response is 500 with the safety-check message, and the request runs
  no \<^verbatim>\<open>git push\<close> and creates no pull request. Nothing is assumed about the commit count:
  the command that would count the commits is free to answer anything.
\<close>

theorem safety_check_failure:
  assumes "agentInvoked (eventsOf cfg e js fs)" "agent e = Closed (Some 0) out err"
    "exec e revParse = Inr b" "\<not> startsWith (trim b) ''claude/''"
  shows "status (responseOf cfg e js fs) = 500
     \<and> body (responseOf cfg e js fs) =
         ErrorBody (''Safety check failed: current branch '' @ [dq] @ trim b @ [dq]
                    @ '' is not a claude/* branch'')
     \<and> \<not> list_ex isPush (eventsOf cfg e js fs)
     \<and> \<not> list_ex isCreatePR (eventsOf cfg e js fs)"
proof -
  from handler_passes [of cfg e js fs] assms(1)
  obtain req ips fs1 where n: "\<not> hasNul req" "\<not> list_ex hasNul ips" and
    h: "list_ex isPush (eventsOf cfg e js fs) = list_ex isPush (fst (runAgent cfg e req ips fs1))"
      "list_ex isCreatePR (eventsOf cfg e js fs) = list_ex isCreatePR (fst (runAgent cfg e req ips fs1))"
      "responseOf cfg e js fs = toResponse (fst (snd (runAgent cfg e req ips fs1)))"
    by blast
  show ?thesis
    unfolding h runAgent_ok [OF assms(2) n] verify_unsafe [OF assms(3,4)]
    by (simp add: toResponse_def)
qed

text \<open>
  C2. When the handler has started the agent, the agent exits with code 0, the branch read
  afterwards starts with \<^verbatim>\<open>claude/\<close> and \<^verbatim>\<open>git rev-list --count master..<branch>\<close> prints
  the count 0, the response is 400 with the message that no changes were committed, and
  the request runs no \<^verbatim>\<open>git push\<close> and creates no pull request.
\<close>

theorem no_commits_reported:
  assumes "agentInvoked (eventsOf cfg e js fs)" "agent e = Closed (Some 0) out err"
    "exec e revParse = Inr b" "startsWith (trim b) ''claude/''"
    "exec e (revList (trim b)) = Inr (gitCountOutput 0)"
  shows "status (responseOf cfg e js fs) = 400
     \<and> body (responseOf cfg e js fs) = ErrorBody ''No changes were committed by Claude Code''
     \<and> \<not> list_ex isPush (eventsOf cfg e js fs)
     \<and> \<not> list_ex isCreatePR (eventsOf cfg e js fs)"
proof -
  from handler_passes [of cfg e js fs] assms(1)
  obtain req ips fs1 where n: "\<not> hasNul req" "\<not> list_ex hasNul ips" and
    h: "list_ex isPush (eventsOf cfg e js fs) = list_ex isPush (fst (runAgent cfg e req ips fs1))"
      "list_ex isCreatePR (eventsOf cfg e js fs) = list_ex isCreatePR (fst (runAgent cfg e req ips fs1))"
      "responseOf cfg e js fs = toResponse (fst (snd (runAgent cfg e req ips fs1)))"
    by blast
  show ?thesis
    unfolding h runAgent_ok [OF assms(2) n] verify_no_commits [OF assms(3,4,5)]
    by (simp add: toResponse_def)
qed



lemma ready0: "isRepoReady cfg0 fs0"
  by code_simp

lemma reaches_agent:
  assumes "isRepoReady cfg fs" "request b = Some req" "req \<noteq> []" "images b = None"
    "exec e = (\<lambda>command. Inr (f command))" "\<not> hasNul req"
    "namer e = Closed code out err \<or> namer e = ProcError msg"
  shows "agentInvoked (eventsOf cfg e (Inr b) fs)"
proof -
  obtain slug where g: "generateBranchName (namer e) req = Inr slug"
    using generateBranchName_resolves [OF assms(6,7)] by blast
  have r: "agentInvoked (fst (runAgent cfg e req [] fs))"
    by (rule runAgent_invoked)
  from assms(1-5) g r show ?thesis
    by (auto simp: eventsOf_def handleChangeRequest_def tryBlock_def syncRepo_def createBranch_def
        execInRepo_def Let_def split: prod.splits)
qed

theorem safety_check_failure_witness:
  "agentInvoked (eventsOf cfg0 envUnsafe js0 fs0)
   \<and> agent envUnsafe = Closed (Some 0) ''done'' []
   \<and> exec envUnsafe revParse = Inr ''master\<newline>''
   \<and> \<not> startsWith (trim ''master\<newline>'') ''claude/''
   \<and> status (responseOf cfg0 envUnsafe js0 fs0) = 500
   \<and> body (responseOf cfg0 envUnsafe js0 fs0) =
       ErrorBody (''Safety check failed: current branch '' @ [dq] @ ''master'' @ [dq]
                  @ '' is not a claude/* branch'')
   \<and> \<not> list_ex isPush (eventsOf cfg0 envUnsafe js0 fs0)
   \<and> \<not> list_ex isCreatePR (eventsOf cfg0 envUnsafe js0 fs0)"
proof -
  have i: "agentInvoked (eventsOf cfg0 envUnsafe js0 fs0)"
    unfolding js0_def
    by (rule reaches_agent [OF ready0, where req = "''Fix login''" and code = "Some 0"
          and out = "''fix-login\<newline>''" and err = "[]"])
      (simp_all add: envUnsafe_def env0_def)
  have a: "agent envUnsafe = Closed (Some 0) ''done'' []"
    by (simp add: envUnsafe_def env0_def)
  have x: "exec envUnsafe revParse = Inr ''master\<newline>''"
    by (simp add: envUnsafe_def env0_def)
  have t: "trim ''master\<newline>'' = ''master''"
    by code_simp
  have s: "\<not> startsWith (trim ''master\<newline>'') ''claude/''"
    by (simp add: t startsWith_def)
  from safety_check_failure [OF i a x s] i a x s show ?thesis
    by (simp add: t)
qed

theorem no_commits_reported_witness:
  "agentInvoked (eventsOf cfg0 envNoCommits js0 fs0)
   \<and> agent envNoCommits = Closed (Some 0) ''done'' []
   \<and> exec envNoCommits revParse = Inr ''claude/fix-login-1700000000123\<newline>''
   \<and> startsWith (trim ''claude/fix-login-1700000000123\<newline>'') ''claude/''
   \<and> exec envNoCommits (revList (trim ''claude/fix-login-1700000000123\<newline>'')) = Inr (gitCountOutput 0)
   \<and> status (responseOf cfg0 envNoCommits js0 fs0) = 400
   \<and> body (responseOf cfg0 envNoCommits js0 fs0) = ErrorBody ''No changes were committed by Claude Code''
   \<and> \<not> list_ex isPush (eventsOf cfg0 envNoCommits js0 fs0)
   \<and> \<not> list_ex isCreatePR (eventsOf cfg0 envNoCommits js0 fs0)"
proof -
  have i: "agentInvoked (eventsOf cfg0 envNoCommits js0 fs0)"
    unfolding js0_def
    by (rule reaches_agent [OF ready0, where req = "''Fix login''" and code = "Some 0"
          and out = "''fix-login\<newline>''" and err = "[]"])
      (simp_all add: envNoCommits_def env0_def)
  have a: "agent envNoCommits = Closed (Some 0) ''done'' []"
    by (simp add: envNoCommits_def env0_def)
  have x: "exec envNoCommits revParse = Inr ''claude/fix-login-1700000000123\<newline>''"
    by (simp add: envNoCommits_def env0_def)
  have t: "trim ''claude/fix-login-1700000000123\<newline>'' = ''claude/fix-login-1700000000123''"
    by code_simp
  have s: "startsWith (trim ''claude/fix-login-1700000000123\<newline>'') ''claude/''"
    by (simp add: t startsWith_def)
  have g: "gitCountOutput 0 = ''0\<newline>''"
    by (simp add: gitCountOutput_def decimal.simps digitChar_def)
  have c: "exec envNoCommits (revList (trim ''claude/fix-login-1700000000123\<newline>'')) = Inr (gitCountOutput 0)"
    by (simp add: t g envNoCommits_def env0_def revList_def revParse_def)
  from no_commits_reported [OF i a x s c] i a x s c show ?thesis
    by simp
qed


text \<open>
  C8, evaluated where the code leaves the claim. The request text \<^verbatim>\<open>a\u0000b\<close> is a string the
  handler accepts, and its deterministic slug is \<^verbatim>\<open>ab\<close>. \<^verbatim>\<open>spawn\<close> refuses the prompt that
  holds it and throws inside the executor of the promise, so \<^verbatim>\<open>generateBranchName\<close> rejects
  where the claim has it fall back to that slug: the error reaches the handler, which
  answers 500 after the repository was synchronised, with no branch created and the agent
  never started.
\<close>

theorem assisted_naming_rejects_nul:
  "request \<lparr>request = Some nulRequest, images = None\<rparr> = Some nulRequest \<and> nulRequest \<noteq> []
   \<and> substring0 30 (slugify nulRequest) = ''ab''
   \<and> isl (generateBranchName (namer env0) nulRequest)
   \<and> status (responseOf cfg0 env0 jsNul fs0) = 500
   \<and> eventsOf cfg0 env0 jsNul fs0 =
       [Exec ''git fetch origin'', Exec ''git checkout master'',
        Exec ''git reset --hard origin/master'', Spawn (namerArgs nulRequest)]
   \<and> \<not> agentInvoked (eventsOf cfg0 env0 jsNul fs0)"
proof -
  have n: "hasNul nulRequest"
    by (simp add: nulRequest_def)
  have s: "substring0 30 (slugify nulRequest) = ''ab''"
    by code_simp
  have g: "generateBranchName (namer env0) nulRequest = Inl nullBytesError"
    using n by (rule generateBranchName_nul)
  have x: "execInRepo env0 command = Inr []" for command
    by (simp add: execInRepo_def env0_def trim_def)
  have c: "createBranch cfg0 env0 nulRequest [] fs0 =
      ([Spawn (namerArgs nulRequest)], Thrown nullBytesError, fs0)"
    by (simp add: createBranch_def g)
  have t: "tryBlock cfg0 env0 jsNul fs0 =
      ([Exec ''git fetch origin'', Exec ''git checkout master'',
        Exec ''git reset --hard origin/master'', Spawn (namerArgs nulRequest)],
       Thrown nullBytesError, [], fs0)"
    by (simp add: tryBlock_def jsNul_def ready0 syncRepo_def x c) (simp add: nulRequest_def)
  have h: "handleChangeRequest cfg0 env0 jsNul fs0 =
      (\<lparr>status = 500, body = ErrorBody nullBytesError\<rparr>,
       [Exec ''git fetch origin'', Exec ''git checkout master'',
        Exec ''git reset --hard origin/master'', Spawn (namerArgs nulRequest)], fs0)"
    by (simp add: handleChangeRequest_def t toResponse_def)
  show ?thesis
    by (simp add: s g h responseOf_def eventsOf_def) (simp add: nulRequest_def)
qed

section \<open>Properties of the attachment manager and the request gate\<close>

text \<open>
  C9, evaluated where the code leaves the claim. An attachment named \<^verbatim>\<open>../evil.js\<close> is
  saved without an error; the one file written is \<^verbatim>\<open>/workspace/repo/evil.js\<close>, in the working
  tree itself and not inside \<^verbatim>\<open>/workspace/repo/.claude-temp-images\<close>: \<^verbatim>\<open>saveImages\<close> joins
  the name the client chose onto the directory, and the join resolves the \<^verbatim>\<open>..\<close> segment.
\<close>

theorem attachment_name_escapes:
  "snd (saveImages (REPO_PATH cfg0) fs0 escapingImages) = Inr [''/workspace/repo/evil.js'']
   \<and> writtenPaths fs0 (fst (saveImages (REPO_PATH cfg0) fs0 escapingImages))
       = [[''workspace'', ''repo'', ''evil.js'']]
   \<and> resolve fs0 (tempDirOf (REPO_PATH cfg0)) = [''workspace'', ''repo'', ''.claude-temp-images'']
   \<and> \<not> inside (resolve fs0 (tempDirOf (REPO_PATH cfg0))) [''workspace'', ''repo'', ''evil.js'']"
  by code_simp

text \<open>
  Two attachments, the second named into a subdirectory that does not exist: the first
  file is written, the second write throws, and \<^verbatim>\<open>saveImages\<close> ends with the directory and
  the first file in place.
\<close>

lemma saveImages_partial:
  "saveImages (REPO_PATH cfg0) fs0 partialImages =
     (treePartial,
      Inl ''ENOENT: no such file or directory, open /workspace/repo/.claude-temp-images/sub/b.png'')"
  by code_simp

lemma tryBlock_partial:
  "tryBlock cfg0 env0 jsPartial fs0 =
     ([], Thrown ''ENOENT: no such file or directory, open /workspace/repo/.claude-temp-images/sub/b.png'',
      [], treePartial)"
  by (simp add: tryBlock_def jsPartial_def ready0 saveImages_partial)
    (simp add: partialImages_def)

text \<open>
  C4, evaluated where the code leaves the claim. The attachment directory is absent
  before the request. The second write throws, so the assignment to \<^verbatim>\<open>imagePaths\<close> never
  happens; the request is answered 500, and the \<^verbatim>\<open>finally\<close> block, which cleans up only
  when \<^verbatim>\<open>imagePaths\<close> is not empty, leaves the directory and the first file behind.
\<close>

theorem partial_save_leaves_directory:
  "\<not> existsSync fs0 (tempDirOf (REPO_PATH cfg0))
   \<and> responseOf cfg0 env0 jsPartial fs0 =
       \<lparr>status = 500,
        body = ErrorBody ''ENOENT: no such file or directory, open /workspace/repo/.claude-temp-images/sub/b.png''\<rparr>
   \<and> eventsOf cfg0 env0 jsPartial fs0 = []
   \<and> treeAfter cfg0 env0 jsPartial fs0 = treePartial
   \<and> existsSync (treeAfter cfg0 env0 jsPartial fs0) (tempDirOf (REPO_PATH cfg0))
   \<and> isFile (treeAfter cfg0 env0 jsPartial fs0) [''workspace'', ''repo'', ''.claude-temp-images'', ''a.png'']"
proof -
  have a: "\<not> existsSync fs0 (tempDirOf (REPO_PATH cfg0))"
    by code_simp
  have b: "existsSync treePartial (tempDirOf (REPO_PATH cfg0))"
    by code_simp
  have c: "isFile treePartial [''workspace'', ''repo'', ''.claude-temp-images'', ''a.png'']"
    by code_simp
  have h: "handleChangeRequest cfg0 env0 jsPartial fs0 =
      (\<lparr>status = 500,
        body = ErrorBody ''ENOENT: no such file or directory, open /workspace/repo/.claude-temp-images/sub/b.png''\<rparr>,
       [], treePartial)"
    by (simp add: handleChangeRequest_def tryBlock_partial toResponse_def)
  from a b c show ?thesis
    by (simp add: responseOf_def eventsOf_def treeAfter_def h)
qed

text \<open>
  The handler never answers 429, and answers 503 when the repository is not ready.
\<close>

lemma publish_status: "publish cfg e req b = (evs, Responded x) \<Longrightarrow> status x = 200"
  by (auto simp: publish_def Let_def split: sum.splits)

lemma verify_status: "verifyAndPublish cfg e req = (evs, Responded x) \<Longrightarrow> status x \<noteq> 429"
  by (auto simp: verifyAndPublish_def Let_def split: sum.splits prod.splits if_splits
      dest!: publish_status)

lemma runAgent_status: "runAgent cfg e req ips fs = (evs, Responded x, fs') \<Longrightarrow> status x \<noteq> 429"
  by (auto simp: runAgent_def Let_def split: sum.splits prod.splits dest!: verify_status)

lemma createBranch_status:
  "createBranch cfg e req ips fs = (evs, Responded x, fs') \<Longrightarrow> status x \<noteq> 429"
  by (auto simp: createBranch_def Let_def split: sum.splits prod.splits dest!: runAgent_status)

lemma syncRepo_status: "syncRepo cfg e req ips fs = (evs, Responded x, fs') \<Longrightarrow> status x \<noteq> 429"
  by (auto simp: syncRepo_def Let_def split: sum.splits prod.splits dest!: createBranch_status)

lemma tryBlock_status: "tryBlock cfg e js fs = (evs, Responded x, ips, fs') \<Longrightarrow> status x \<noteq> 429"
  by (auto simp: tryBlock_def Let_def split: sum.splits prod.splits option.splits if_splits
      dest!: syncRepo_status)

lemma handler_status: "status (fst (handleChangeRequest cfg e js fs)) \<noteq> 429"
proof (cases "tryBlock cfg e js fs")
  case (fields evs r ips fs')
  then show ?thesis
    by (cases r) (auto simp: handleChangeRequest_def toResponse_def Let_def dest!: tryBlock_status)
qed

lemma handler_not_ready:
  "\<not> isRepoReady cfg fs \<Longrightarrow> status (fst (handleChangeRequest cfg e js fs)) = 503"
  by (simp add: handleChangeRequest_def tryBlock_def toResponse_def)

lemma check_allowed_consumes:
  assumes "checkRateLimit now k m = (True, m')"
  shows "case m k of
           None \<Rightarrow> m' k = Some \<lparr>windowStart = now, count = 1\<rparr>
         | Some r \<Rightarrow> m' k = Some \<lparr>windowStart = now, count = 1\<rparr> \<or> m' k = Some (r\<lparr>count := count r + 1\<rparr>)"
  using assms by (auto simp: checkRateLimit_def split: option.splits if_splits)

lemma check_denied_unchanged: "checkRateLimit now k m = (False, m') \<Longrightarrow> m' = m"
  by (auto simp: checkRateLimit_def split: option.splits if_splits)

text \<open>
  C10, as amended. A request that is authenticated, is not an OPTIONS preflight and is not
  \<^verbatim>\<open>GET /health\<close> goes through the rate-limit check before any routing or readiness
  decision: the table after the request is the table after the check, whatever the route.
  The answer is 429 exactly when the check denies, and then the table is unchanged.
  Otherwise the request consumes one unit of quota (it starts a new window with count 1 or
  increments the count); this includes every request answered 404 and every request
  answered 503 because the repository is not ready.
\<close>

theorem gate_consumes_quota:
  assumes "gated cfg req"
  shows "rateLimits (snd (server cfg e req st))
         = snd (checkRateLimit (nowCheck e) (clientIpOf req) (rateLimits st))
     \<and> (statusOf cfg e req st = 429) = (\<not> fst (checkRateLimit (nowCheck e) (clientIpOf req) (rateLimits st)))
     \<and> (statusOf cfg e req st = 429 \<longrightarrow> rateLimits (snd (server cfg e req st)) = rateLimits st)
     \<and> (statusOf cfg e req st \<noteq> 429 \<longrightarrow> consumesUnit cfg e req st)
     \<and> (statusOf cfg e req st \<noteq> 429 \<and> \<not> (httpMethod req = ''POST'' \<and> pathname req = ''/'')
          \<longrightarrow> statusOf cfg e req st = 404)
     \<and> (statusOf cfg e req st \<noteq> 429 \<and> httpMethod req = ''POST'' \<and> pathname req = ''/''
          \<and> \<not> isRepoReady cfg (tree st)
          \<longrightarrow> statusOf cfg e req st = 503)"
proof -
  obtain allowed m where c: "checkRateLimit (nowCheck e) (clientIpOf req) (rateLimits st) = (allowed, m)"
    by (cases "checkRateLimit (nowCheck e) (clientIpOf req) (rateLimits st)")
  obtain res evs fs' where h: "handleChangeRequest cfg e (json req) (tree st) = (res, evs, fs')"
    by (cases "handleChangeRequest cfg e (json req) (tree st)")
  have hs: "status res \<noteq> 429"
    using handler_status [of cfg e "json req" "tree st"] by (simp add: h)
  have nr: "\<not> isRepoReady cfg (tree st) \<Longrightarrow> status res = 503"
    using handler_not_ready [of cfg "tree st" e "json req"] by (simp add: h)
  show ?thesis
  proof (cases allowed)
    case False
    with c have "m = rateLimits st"
      by (simp add: check_denied_unchanged)
    with assms c False show ?thesis
      by (auto simp: statusOf_def server_def gated_def)
  next
    case True
    with c have u: "case rateLimits st (clientIpOf req) of
           None \<Rightarrow> m (clientIpOf req) = Some \<lparr>windowStart = nowCheck e, count = 1\<rparr>
         | Some r \<Rightarrow> m (clientIpOf req) = Some \<lparr>windowStart = nowCheck e, count = 1\<rparr>
             \<or> m (clientIpOf req) = Some (r\<lparr>count := count r + 1\<rparr>)"
      by (intro check_allowed_consumes) simp
    have r: "rateLimits (snd (server cfg e req st)) = m"
      using assms c True h by (auto simp: server_def gated_def)
    have s: "statusOf cfg e req st = (if httpMethod req = ''POST'' \<and> pathname req = ''/'' then status res else 404)"
      using assms c True h by (auto simp: statusOf_def server_def gated_def)
    from u have "consumesUnit cfg e req st"
      by (auto simp: consumesUnit_def r Let_def split: option.splits)
    with r s hs nr c True show ?thesis
      by simp
  qed
qed

text \<open>
  C10 as stated fails where the check denies: the sixth authenticated \<^verbatim>\<open>POST /\<close> of a client
  inside its window is answered 429, and its record keeps the window start and the count
  5, so the request neither starts a new window nor increments the count.
\<close>

theorem denied_request_consumes_nothing:
  "gated cfg0 post0
   \<and> rateLimits st5 (clientIpOf post0) = Some \<lparr>windowStart = 1699999000000, count = 5\<rparr>
   \<and> statusOf cfg0 env0 post0 st5 = 429
   \<and> rateLimits (snd (server cfg0 env0 post0 st5)) (clientIpOf post0)
       = Some \<lparr>windowStart = 1699999000000, count = 5\<rparr>
   \<and> \<not> consumesUnit cfg0 env0 post0 st5"
proof -
  have g: "gated cfg0 post0"
    by (simp add: gated_def auth_post0) (simp add: post0_def)
  have c: "checkRateLimit (nowCheck env0) (clientIpOf post0) (rateLimits st5) = (False, rateLimits st5)"
    by (simp add: clientIp_post0 checkRateLimit_def st5_def env0_def RATE_LIMIT_WINDOW_MS_def
        RATE_LIMIT_MAX_REQUESTS_def)
  have s: "server cfg0 env0 post0 st5 =
      ((\<lparr>status = 429, body = ErrorBody ''Too many requests. Please try again later.''\<rparr>, []), st5)"
    using g by (auto simp: server_def gated_def c)
  have m: "rateLimits st5 (clientIpOf post0) = Some \<lparr>windowStart = 1699999000000, count = 5\<rparr>"
    by (simp add: clientIp_post0 st5_def)
  show ?thesis
    by (simp add: g statusOf_def consumesUnit_def s m Let_def)
qed

theorem gate_consumes_quota_witness:
  "gated cfg0 get404 \<and> statusOf cfg0 env0 get404 stEmpty = 404
   \<and> rateLimits (snd (server cfg0 env0 get404 stEmpty)) (Some ''10.0.0.7'')
       = Some \<lparr>windowStart = 1700000000000, count = 1\<rparr>
   \<and> consumesUnit cfg0 env0 get404 stEmpty
   \<and> gated cfg0 post0 \<and> \<not> isRepoReady cfg0 (tree stCloning)
   \<and> statusOf cfg0 env0 post0 stCloning = 503
   \<and> rateLimits (snd (server cfg0 env0 post0 stCloning)) (Some ''10.0.0.7'')
       = Some \<lparr>windowStart = 1700000000000, count = 1\<rparr>
   \<and> consumesUnit cfg0 env0 post0 stCloning"
proof -
  have a4: "isAuthenticated cfg0 get404"
    by code_simp
  have i4: "clientIpOf get404 = Some ''10.0.0.7''"
    by code_simp
  have g4: "gated cfg0 get404"
    by (simp add: gated_def a4) (simp add: get404_def post0_def)
  have g0: "gated cfg0 post0"
    by (simp add: gated_def auth_post0) (simp add: post0_def)
  have n: "\<not> isRepoReady cfg0 (tree stCloning)"
    by code_simp
  have p4: "\<not> (httpMethod get404 = ''POST'' \<and> pathname get404 = ''/'')"
    by (simp add: get404_def post0_def)
  have p0: "httpMethod post0 = ''POST'' \<and> pathname post0 = ''/''"
    by (simp add: post0_def)
  have c4: "checkRateLimit (nowCheck env0) (Some ''10.0.0.7'') (rateLimits stEmpty)
      = (True, [Some ''10.0.0.7'' \<mapsto> \<lparr>windowStart = 1700000000000, count = 1\<rparr>])"
    by (simp add: checkRateLimit_def stEmpty_def env0_def)
  have c0: "checkRateLimit (nowCheck env0) (Some ''10.0.0.7'') (rateLimits stCloning)
      = (True, [Some ''10.0.0.7'' \<mapsto> \<lparr>windowStart = 1700000000000, count = 1\<rparr>])"
    by (simp add: checkRateLimit_def stCloning_def env0_def)
  from gate_consumes_quota [OF g4, of env0 stEmpty] gate_consumes_quota [OF g0, of env0 stCloning]
    g4 g0 n p4 p0
  show ?thesis
    by (simp add: i4 clientIp_post0 c4 c0)
qed

end
